theory Spec2Isabelle
  imports Complex_Main "HOL-Library.Sublist"
begin

section \<open>The chat route of the AyurBot application\<close>

text \<open>
  This theory is a shallow embedding of \<^verbatim>\<open>src/app/api/chat/route.ts\<close>: the retry helper
  \<^verbatim>\<open>withRetry\<close> and the request handler \<^verbatim>\<open>POST\<close>, which formats the chat history,
  asks the generative service to rewrite the question, retrieves context from the vector
  index, asks the generative service for the answer and turns any failure into an error
  response.

  Conventions of the model.
  \<^item> A JavaScript string is carried as the bytes of its UTF-8 encoding, a HOL
    \<^typ>\<open>string\<close>: an ASCII character is one byte, the dash U+2014 of the persona text
    the three bytes E2 80 94, the no-break space U+00A0 the two bytes C2 A0. Joining
    strings is appending, and an ASCII phrase occurs in a string exactly when its bytes
    occur in the string's bytes.
  \<^item> A JavaScript number is carried as the text \<^verbatim>\<open>Number.prototype.toString\<close> gives for
    it, which determines what the handler can observe of a number: whether it is zero
    and how it prints.
  \<^item> A thrown value is an \<^verbatim>\<open>Error\<close>-like object: a message (a string, or absent), a
    numeric status (or absent), the name of its constructor, and what
    \<^verbatim>\<open>JSON.stringify\<close> does on it: nothing to be seen, or a TypeError of its own (on an
    object that refers back to itself, or that holds a BigInt).
  \<^item> An \<^verbatim>\<open>await\<close>ed call of an external service is a function from the state of the
    outside world to a result (the rejection or the value) and the next state; every
    such call settles. What \<^verbatim>\<open>console.log\<close> and \<^verbatim>\<open>console.error\<close> print is left out: it
    changes no result. The one argument of a logging call whose evaluation can throw,
    the \<^verbatim>\<open>JSON.stringify(error, null, 2)\<close> of the catch block, is modelled.
\<close>

subsection \<open>Parsed JSON values and thrown errors\<close>

datatype json =
    JUndefined
  | JNull
  | JBool bool
  | JNum string
  | JStr string
  | JArr "json list"
  | JObj "(string \<times> json) list"

text \<open>Truthiness, as \<^verbatim>\<open>&&\<close>, \<^verbatim>\<open>||\<close> and \<^verbatim>\<open>filter\<close> read a value. Zero prints as \<^verbatim>\<open>0\<close>
  (also minus zero); JSON has no NaN.\<close>

fun truthy :: "json \<Rightarrow> bool" where
  "truthy JUndefined = False"
| "truthy JNull = False"
| "truthy (JBool b) = b"
| "truthy (JNum s) = (s \<noteq> ''0'')"
| "truthy (JStr s) = (s \<noteq> [])"
| "truthy (JArr xs) = True"
| "truthy (JObj fs) = True"

text \<open>\<^verbatim>\<open>a || b\<close>\<close>

definition js_or :: "json \<Rightarrow> json \<Rightarrow> json" where
  "js_or a b = (if truthy a then a else b)"

record error =
  message :: "string option"
  status :: "int option"
  constructor_name :: string
  stringify_throws :: "string option"

text \<open>The fourth field is the message of the TypeError that \<^verbatim>\<open>JSON.stringify\<close> throws on
  the value, when it throws one. A TypeError of the runtime has no field but its
  message and is printed without more.\<close>

definition TypeError :: "string \<Rightarrow> error" where
  "TypeError msg = \<lparr>message = Some msg, status = None, constructor_name = ''TypeError'',
      stringify_throws = None\<rparr>"

text \<open>Reading a property named \<open>k\<close> of a value that is neither \<^verbatim>\<open>null\<close> nor
  \<^verbatim>\<open>undefined\<close>. The handler reads \<^verbatim>\<open>question\<close>, \<^verbatim>\<open>history\<close>, \<^verbatim>\<open>role\<close>, \<^verbatim>\<open>parts\<close> and
  \<^verbatim>\<open>text\<close>; no prototype has them, so only an object's own fields answer.\<close>

fun property :: "json \<Rightarrow> string \<Rightarrow> json" where
  "property (JObj fs) k = (case map_of fs k of None \<Rightarrow> JUndefined | Some v \<Rightarrow> v)"
| "property v k = JUndefined"

text \<open>\<^verbatim>\<open>v.k\<close>: a TypeError on \<^verbatim>\<open>null\<close> and \<^verbatim>\<open>undefined\<close>.\<close>

definition get :: "json \<Rightarrow> string \<Rightarrow> error + json" where
  "get v k =
     (if v = JNull then
        Inl (TypeError (''Cannot read properties of null (reading '' @ [CHR 0x27] @ k @ [CHR 0x27] @ '')''))
      else if v = JUndefined then
        Inl (TypeError (''Cannot read properties of undefined (reading '' @ [CHR 0x27] @ k @ [CHR 0x27] @ '')''))
      else Inr (property v k))"

text \<open>\<^verbatim>\<open>xs[i]\<close> on an array: \<^verbatim>\<open>undefined\<close> out of range.\<close>

definition element :: "json list \<Rightarrow> nat \<Rightarrow> json" where
  "element xs i = (if i < length xs then xs ! i else JUndefined)"

subsection \<open>Strings\<close>

text \<open>\<^verbatim>\<open>Array.prototype.join\<close> on an array of strings.\<close>

fun js_join :: "string \<Rightarrow> string list \<Rightarrow> string" where
  "js_join sep [] = []"
| "js_join sep [x] = x"
| "js_join sep (x # y # ys) = x @ sep @ js_join sep (y # ys)"

text \<open>\<^verbatim>\<open>String.prototype.includes\<close>: the pattern occurs at some position.\<close>

fun str_includes :: "string \<Rightarrow> string \<Rightarrow> bool" where
  "str_includes [] p = (p = [])"
| "str_includes (c # s) p = (take (length p) (c # s) = p \<or> str_includes s p)"

text \<open>The characters that \<^verbatim>\<open>String.prototype.trim\<close> removes, each as its UTF-8 bytes: the
  white space of ECMAScript (TAB, VT, FF, U+FEFF and the space separators SP, U+00A0,
  U+1680, U+2000 to U+200A, U+202F, U+205F, U+3000) and its line terminators (LF, CR,
  U+2028, U+2029).\<close>

definition white_space :: "string list" where
  "white_space =
     [[CHR 0x09], [CHR 0x0A], [CHR 0x0B], [CHR 0x0C], [CHR 0x0D], [CHR 0x20],
      [CHR 0xC2, CHR 0xA0],
      [CHR 0xE1, CHR 0x9A, CHR 0x80],
      [CHR 0xE2, CHR 0x80, CHR 0x80], [CHR 0xE2, CHR 0x80, CHR 0x81],
      [CHR 0xE2, CHR 0x80, CHR 0x82], [CHR 0xE2, CHR 0x80, CHR 0x83],
      [CHR 0xE2, CHR 0x80, CHR 0x84], [CHR 0xE2, CHR 0x80, CHR 0x85],
      [CHR 0xE2, CHR 0x80, CHR 0x86], [CHR 0xE2, CHR 0x80, CHR 0x87],
      [CHR 0xE2, CHR 0x80, CHR 0x88], [CHR 0xE2, CHR 0x80, CHR 0x89],
      [CHR 0xE2, CHR 0x80, CHR 0x8A],
      [CHR 0xE2, CHR 0x80, CHR 0xA8], [CHR 0xE2, CHR 0x80, CHR 0xA9],
      [CHR 0xE2, CHR 0x80, CHR 0xAF],
      [CHR 0xE2, CHR 0x81, CHR 0x9F],
      [CHR 0xE3, CHR 0x80, CHR 0x80],
      [CHR 0xEF, CHR 0xBB, CHR 0xBF]]"

text \<open>Removing from the front of \<open>s\<close>, as long as there is one, a character of the list
  \<open>ws\<close>.\<close>

function strip_leading :: "string list \<Rightarrow> string \<Rightarrow> string" where
  "strip_leading ws s =
     (case List.find (\<lambda>w. w \<noteq> [] \<and> prefix w s) ws of
        None \<Rightarrow> s
      | Some w \<Rightarrow> strip_leading ws (drop (length w) s))"
  by pat_completeness auto
termination
proof (relation "measure (\<lambda>(ws, s). length s)")
  show "wf (measure (\<lambda>(ws, s). length s))" by simp
next
  fix ws :: "string list" and s w :: string
  assume "List.find (\<lambda>w. w \<noteq> [] \<and> prefix w s) ws = Some w"
  then have "w \<noteq> []" and "prefix w s"
    by (auto simp: find_Some_iff)
  then have "s \<noteq> []" by auto
  with \<open>w \<noteq> []\<close> show "((ws, drop (length w) s), (ws, s)) \<in> measure (\<lambda>(ws, s). length s)"
    by simp
qed

text \<open>\<^verbatim>\<open>String.prototype.trim\<close>: the white space is removed from the front and, read
  backwards, from the end. (The first byte of a UTF-8 sequence tells its length, so a
  well-formed string ends with the bytes of a character only if that is its last
  character.)\<close>

definition trim :: "string \<Rightarrow> string" where
  "trim s = rev (strip_leading (map rev white_space) (rev (strip_leading white_space s)))"

text \<open>In the words of the specification: a text is whitespace-only when it is made of
  white space characters only (the empty text among them), and a message mentions a
  phrase when the phrase occurs in it.\<close>

definition whitespace_only :: "string \<Rightarrow> bool" where
  "whitespace_only t = (\<exists>cs. list_all (\<lambda>c. c \<in> set white_space) cs \<and> t = concat cs)"

definition mentions :: "error \<Rightarrow> string \<Rightarrow> bool" where
  "mentions e phrase = (case message e of None \<Rightarrow> False | Some m \<Rightarrow> sublist phrase m)"

text \<open>\<^verbatim>\<open>ToString\<close>, as a template literal and \<^verbatim>\<open>join\<close> apply it to a parsed JSON value.
  An object prints through \<^verbatim>\<open>Object.prototype.toString\<close>, unless a field of its own
  named \<^verbatim>\<open>toString\<close> hides that method: a parsed field is never callable, and
  \<^verbatim>\<open>valueOf\<close> gives no primitive, so the conversion throws. An array prints its
  elements joined by commas, \<^verbatim>\<open>null\<close> and \<^verbatim>\<open>undefined\<close> elements as nothing.\<close>

fun convertible :: "json \<Rightarrow> bool" where
  "convertible (JObj fs) = (map_of fs ''toString'' = None)"
| "convertible (JArr xs) = list_all convertible xs"
| "convertible v = True"

fun render :: "json \<Rightarrow> string" where
  "render JUndefined = ''undefined''"
| "render JNull = ''null''"
| "render (JBool b) = (if b then ''true'' else ''false'')"
| "render (JNum s) = s"
| "render (JStr s) = s"
| "render (JArr xs) =
     js_join '','' (map (\<lambda>x. if x = JNull \<or> x = JUndefined then [] else render x) xs)"
| "render (JObj fs) = ''[object Object]''"

definition ToString :: "json \<Rightarrow> error + string" where
  "ToString v =
     (if convertible v then Inr (render v)
      else Inl (TypeError ''Cannot convert object to primitive value''))"

text \<open>\<^verbatim>\<open>xs.join(sep)\<close> on an array of parsed values.\<close>

definition join_values :: "string \<Rightarrow> json list \<Rightarrow> error + string" where
  "join_values sep xs =
     (if list_all convertible xs
      then Inr (js_join sep (map (\<lambda>x. if x = JNull \<or> x = JUndefined then [] else render x) xs))
      else Inl (TypeError ''Cannot convert object to primitive value''))"

subsection \<open>The retry helper\<close>

text \<open>
  \<^verbatim>\<open>withRetry(fn, maxRetries = 3, delayMs = 1000)\<close>. The operation \<open>fn\<close> is a call of
  an external service: from the state of the world it gives its result, \<open>Inl\<close> the
  rejection, and the next state. The run carries two observations that the source does
  not compute: the number of times \<open>fn\<close> was invoked and the delays slept, in order.
  \<open>maxRetries\<close> is an attempt count, an integer; the loop variable \<open>attempt\<close> starts at 1.
\<close>

datatype thrown =
    Rethrown error
  | MaxRetriesReached

record 'w run =
  world :: 'w
  invocations :: nat
  sleeps :: "int list"

function withRetry_loop ::
  "('w \<Rightarrow> (error + 'a) \<times> 'w) \<Rightarrow> int \<Rightarrow> int \<Rightarrow> int \<Rightarrow> 'w run \<Rightarrow> (thrown + 'a) \<times> 'w run"
where
  "withRetry_loop fn maxRetries attempt delayMs r =
     (if attempt \<le> maxRetries then
        (case fn (world r) of
           (Inr v, w) \<Rightarrow> (Inr v, r\<lparr>world := w, invocations := Suc (invocations r)\<rparr>)
         | (Inl e, w) \<Rightarrow>
             (if status e = Some 503 \<and> attempt < maxRetries then
                withRetry_loop fn maxRetries (attempt + 1) (delayMs * 2)
                  (r\<lparr>world := w, invocations := Suc (invocations r),
                     sleeps := sleeps r @ [delayMs]\<rparr>)
              else (Inl (Rethrown e), r\<lparr>world := w, invocations := Suc (invocations r)\<rparr>)))
      else (Inl MaxRetriesReached, r))"
  by pat_completeness auto
termination
  by (relation "measure (\<lambda>(fn, maxRetries, attempt, delayMs, r). nat (maxRetries + 1 - attempt))")
     auto

definition withRetry ::
  "('w \<Rightarrow> (error + 'a) \<times> 'w) \<Rightarrow> int \<Rightarrow> int \<Rightarrow> 'w \<Rightarrow> (thrown + 'a) \<times> 'w run"
where
  "withRetry fn maxRetries delayMs w =
     withRetry_loop fn maxRetries 1 delayMs \<lparr>world = w, invocations = 0, sleeps = []\<rparr>"


text \<open>What the caller of \<^verbatim>\<open>withRetry\<close> catches: the operation's error as it was thrown, or
  the \<^verbatim>\<open>new Error\<close> of the line after the loop.\<close>

fun thrown_error :: "thrown \<Rightarrow> error" where
  "thrown_error (Rethrown e) = e"
| "thrown_error MaxRetriesReached =
     \<lparr>message = Some ''Max retries reached without success'', status = None,
      constructor_name = ''Error'', stringify_throws = None\<rparr>"

subsection \<open>The external services\<close>

text \<open>An entry of the formatted history, \<^verbatim>\<open>{ role, parts: [{ text }] }\<close>: the handler builds
  every entry with exactly one part, whose text is the second field here.\<close>

record ChatHistory =
  role :: json
  parts_0_text :: json

record GenerateContentRequest =
  model :: string
  contents :: "ChatHistory list"
  systemInstruction :: string
  temperature :: "rat option"

text \<open>Of the service's response the handler reads \<^verbatim>\<open>.text\<close> only, a string or
  \<^verbatim>\<open>undefined\<close>.\<close>

record GenerateContentResponse =
  response_text :: "string option"

text \<open>A metadata value of the vector index: a string, a number (as it prints), a boolean
  or a list of strings.\<close>

datatype metadata_value =
    MString string
  | MNumber string
  | MBoolean bool
  | MStrings "string list"

record match =
  metadata :: "(string \<times> metadata_value) list option"

record QueryResponse =
  matches :: "match list option"

record 'v QueryOptions =
  topK :: nat
  vector :: 'v
  includeMetadata :: bool

text \<open>The collaborators of the handler: the session lookup (its value is only logged),
  \<^verbatim>\<open>ai.models.generateContent\<close>, \<^verbatim>\<open>embeddings.embedQuery\<close> and \<^verbatim>\<open>pineconeIndex.query\<close>.
  \<open>'w\<close> is the state of the outside world, \<open>'v\<close> the type of embedding vectors.\<close>

record ('w, 'v) services =
  getServerSession :: "'w \<Rightarrow> (error + unit) \<times> 'w"
  generateContent :: "GenerateContentRequest \<Rightarrow> 'w \<Rightarrow> (error + GenerateContentResponse) \<times> 'w"
  embedQuery :: "json \<Rightarrow> 'w \<Rightarrow> (error + 'v) \<times> 'w"
  query :: "'v QueryOptions \<Rightarrow> 'w \<Rightarrow> (error + QueryResponse) \<times> 'w"

subsection \<open>Formatting the chat history\<close>

text \<open>\<^verbatim>\<open>v[0]\<close>. (Of a string it is the string of its first character, here its first
  byte; the handler reads \<^verbatim>\<open>.text\<close> of it, which no string has.)\<close>

fun first_of :: "json \<Rightarrow> error + json" where
  "first_of JNull =
     Inl (TypeError (''Cannot read properties of null (reading '' @ [CHR 0x27] @ ''0'' @ [CHR 0x27] @ '')''))"
| "first_of JUndefined =
     Inl (TypeError (''Cannot read properties of undefined (reading '' @ [CHR 0x27] @ ''0'' @ [CHR 0x27] @ '')''))"
| "first_of (JArr xs) = Inr (element xs 0)"
| "first_of (JStr s) = Inr (case s of [] \<Rightarrow> JUndefined | c # cs \<Rightarrow> JStr [c])"
| "first_of (JObj fs) = Inr (property (JObj fs) ''0'')"
| "first_of v = Inr JUndefined"

text \<open>The predicate of the filter:
  \<^verbatim>\<open>msg && msg.role && Array.isArray(msg.parts) && msg.parts.length > 0 && msg.parts[0].text\<close>,
  read as a boolean. Reading \<^verbatim>\<open>.text\<close> of the first part throws when that part is
  \<^verbatim>\<open>null\<close>.\<close>

definition keeps :: "json \<Rightarrow> error + bool" where
  "keeps msg =
     (if \<not> truthy msg then Inr False
      else if \<not> truthy (property msg ''role'') then Inr False
      else
        (case property msg ''parts'' of
           JArr ps \<Rightarrow>
             (if length ps > 0 then
                (case get (element ps 0) ''text'' of
                   Inl e \<Rightarrow> Inl e
                 | Inr t \<Rightarrow> Inr (truthy t))
              else Inr False)
         | _ \<Rightarrow> Inr False))"

text \<open>The function of the map:
  \<^verbatim>\<open>(msg) => ({ role: msg.role, parts: [{ text: msg.parts[0].text }] })\<close>\<close>

definition format_entry :: "json \<Rightarrow> error + ChatHistory" where
  "format_entry msg =
     (case get msg ''role'' of
        Inl e \<Rightarrow> Inl e
      | Inr r \<Rightarrow>
          (case get msg ''parts'' of
             Inl e \<Rightarrow> Inl e
           | Inr ps \<Rightarrow>
               (case first_of ps of
                  Inl e \<Rightarrow> Inl e
                | Inr p \<Rightarrow>
                    (case get p ''text'' of
                       Inl e \<Rightarrow> Inl e
                     | Inr t \<Rightarrow> Inr \<lparr>role = r, parts_0_text = t\<rparr>))))"

text \<open>The entry that the map makes of a message that has passed the filter.\<close>

definition formatted_entry :: "json \<Rightarrow> ChatHistory" where
  "formatted_entry msg =
     \<lparr>role = property msg ''role'',
      parts_0_text =
        (case property msg ''parts'' of
           JArr (p # ps) \<Rightarrow> property p ''text''
         | _ \<Rightarrow> JUndefined)\<rparr>"

text \<open>In the words of the specification: an entry is kept when it has a role and a
  non-empty first text part.\<close>

definition has_role_and_first_text :: "json \<Rightarrow> bool" where
  "has_role_and_first_text msg =
     (truthy (property msg ''role'')
      \<and> (case property msg ''parts'' of
             JArr (p # ps) \<Rightarrow> truthy (property p ''text'')
           | _ \<Rightarrow> False))"

text \<open>The entries on which the filter throws: those with a role whose first part is
  \<^verbatim>\<open>null\<close>.\<close>

definition null_first_part :: "json \<Rightarrow> bool" where
  "null_first_part msg =
     (truthy (property msg ''role'')
      \<and> (case property msg ''parts'' of
             JArr (p # ps) \<Rightarrow> p = JNull \<or> p = JUndefined
           | _ \<Rightarrow> False))"

text \<open>\<^verbatim>\<open>filter\<close> and \<^verbatim>\<open>map\<close> with a callback that may throw: the elements are visited in
  order and the first exception ends the traversal.\<close>

fun filter_throwing :: "('a \<Rightarrow> error + bool) \<Rightarrow> 'a list \<Rightarrow> error + 'a list" where
  "filter_throwing p [] = Inr []"
| "filter_throwing p (x # xs) =
     (case p x of
        Inl e \<Rightarrow> Inl e
      | Inr b \<Rightarrow>
          (case filter_throwing p xs of
             Inl e \<Rightarrow> Inl e
           | Inr ys \<Rightarrow> Inr (if b then x # ys else ys)))"

fun map_throwing :: "('a \<Rightarrow> error + 'b) \<Rightarrow> 'a list \<Rightarrow> error + 'b list" where
  "map_throwing f [] = Inr []"
| "map_throwing f (x # xs) =
     (case f x of
        Inl e \<Rightarrow> Inl e
      | Inr y \<Rightarrow>
          (case map_throwing f xs of
             Inl e \<Rightarrow> Inl e
           | Inr ys \<Rightarrow> Inr (y # ys)))"

text \<open>\<^verbatim>\<open>(history || []).filter(...).map(...)\<close>; a truthy \<^verbatim>\<open>history\<close> that is not an array has
  no \<^verbatim>\<open>filter\<close> method.\<close>

definition formattedHistory :: "json \<Rightarrow> error + ChatHistory list" where
  "formattedHistory history =
     (case js_or history (JArr []) of
        JArr msgs \<Rightarrow>
          (case filter_throwing keeps msgs of
             Inl e \<Rightarrow> Inl e
           | Inr kept \<Rightarrow> map_throwing format_entry kept)
      | _ \<Rightarrow> Inl (TypeError ''(history || []).filter is not a function''))"

definition userHistory :: "ChatHistory list \<Rightarrow> json list" where
  "userHistory formatted =
     map parts_0_text (filter (\<lambda>msg. role msg = JStr ''user'') formatted)"

subsection \<open>Rewriting the question\<close>

definition rewrite_prompt :: "json list \<Rightarrow> json \<Rightarrow> error + string" where
  \<open>rewrite_prompt user_history followUpQuestion =
     (case join_values ''\<newline>'' user_history of
        Inl e \<Rightarrow> Inl e
      | Inr joined \<Rightarrow>
          (case ToString followUpQuestion of
             Inl e \<Rightarrow> Inl e
           | Inr q \<Rightarrow>
               Inr (''Previous user messages:\<newline>'' @ joined
                    @ ''\<newline>Follow-up question: '' @ q)))\<close>

definition rewrite_instruction :: string where
  \<open>rewrite_instruction =
     ''You are a helpful Ayurveda query rewriter. \<newline>''
     @ ''Rephrase the follow-up into a standalone question. Output only the rewritten question, no explanations. \<newline>''
     @ ''If it's a greeting (hi, hello, how can you help me), keep its meaning the same.''\<close>

definition rewrite_request :: "string \<Rightarrow> GenerateContentRequest" where
  "rewrite_request prompt =
     \<lparr>model = ''gemini-2.5-flash'',
      contents = [\<lparr>role = JStr ''user'', parts_0_text = JStr prompt\<rparr>],
      systemInstruction = rewrite_instruction,
      temperature = None\<rparr>"

text \<open>\<^verbatim>\<open>rewriteResponse.text || followUpQuestion || "No question generated."\<close>\<close>

definition enhancedQuestion :: "string option \<Rightarrow> json \<Rightarrow> json" where
  "enhancedQuestion rewritten followUpQuestion =
     js_or (js_or (case rewritten of None \<Rightarrow> JUndefined | Some t \<Rightarrow> JStr t) followUpQuestion)
       (JStr ''No question generated.'')"

text \<open>The last message is replaced by the rewritten one: \<^verbatim>\<open>pop\<close> when the history ends
  with a user entry, then \<^verbatim>\<open>push\<close>.\<close>

definition replace_last :: "ChatHistory list \<Rightarrow> json \<Rightarrow> ChatHistory list" where
  "replace_last formatted enhanced =
     (if length formatted > 0 \<and> role (formatted ! (length formatted - 1)) = JStr ''user''
      then butlast formatted else formatted)
     @ [\<lparr>role = JStr ''user'', parts_0_text = enhanced\<rparr>]"

subsection \<open>Retrieval and the answer\<close>

text \<open>\<^verbatim>\<open>String(m.metadata?.text ?? "")\<close>\<close>

fun String :: "metadata_value \<Rightarrow> string" where
  "String (MString s) = s"
| "String (MNumber s) = s"
| "String (MBoolean b) = (if b then ''true'' else ''false'')"
| "String (MStrings xs) = js_join '','' xs"

definition match_text :: "match \<Rightarrow> string" where
  "match_text m =
     (case metadata m of
        None \<Rightarrow> []
      | Some md \<Rightarrow> (case map_of md ''text'' of None \<Rightarrow> [] | Some v \<Rightarrow> String v))"

definition context_of :: "QueryResponse \<Rightarrow> string" where
  \<open>context_of searchResults =
     js_join ''\<newline>\<newline>---\<newline>\<newline>''
       (filter (\<lambda>t. length (trim t) > 0)
          (map match_text (case matches searchResults of None \<Rightarrow> [] | Some ms \<Rightarrow> ms)))\<close>

definition persona :: string where
  \<open>persona =
     ''You are AyurBot '' @ [CHR 0xE2, CHR 0x80, CHR 0x94]
     @ '' a compassionate Ayurveda and yoga expert.\<newline>''
     @ ''You specialize in holistic healing, diet, lifestyle, herbs, meditation, and wellness.\<newline>''
     @ ''Use ONLY the provided context to answer. \<newline>''
     @ ''If context lacks the answer, reply: "I could not find the answer in the provided document. Would you like general Ayurvedic guidance instead?"\<newline>''
     @ ''Keep your tone warm, natural, and caring. \<newline>''
     @ ''Explain simply and safely without prescribing medicines.\<newline>''
     @ ''Context: ''\<close>

definition system_instruction :: "string \<Rightarrow> string" where
  "system_instruction ctx = persona @ (if ctx \<noteq> [] then ctx else ''No relevant context found.'')"

definition answer_request :: "ChatHistory list \<Rightarrow> string \<Rightarrow> GenerateContentRequest" where
  "answer_request formatted ctx =
     \<lparr>model = ''gemini-2.5-flash'',
      contents = formatted,
      systemInstruction = system_instruction ctx,
      temperature = Some (7 / 10)\<rparr>"

text \<open>\<^verbatim>\<open>response.text || "I'm here to guide you ..."\<close>\<close>

definition answer :: "GenerateContentResponse \<Rightarrow> string" where
  \<open>answer response =
     (case response_text response of
        None \<Rightarrow> ''I'm here to guide you on Ayurveda, yoga, and holistic well-being.''
      | Some t \<Rightarrow>
          if t \<noteq> [] then t
          else ''I'm here to guide you on Ayurveda, yoga, and holistic well-being.'')\<close>

subsection \<open>The error responses\<close>

datatype response_body =
    AnswerBody (answer_text: string)
  | ErrorBody (error_text: string) (details: string) (errorType: "string option")

record NextResponse =
  body :: response_body
  response_status :: nat

datatype category = Configuration | Capacity | Generic

text \<open>\<^verbatim>\<open>error.message?.includes(s)\<close>\<close>

definition message_includes :: "error \<Rightarrow> string \<Rightarrow> bool" where
  "message_includes e s = (case message e of None \<Rightarrow> False | Some m \<Rightarrow> str_includes m s)"

text \<open>The two tests of the catch block, in the order of the source: the first that holds
  decides.\<close>

definition classify :: "error \<Rightarrow> category" where
  "classify e =
     (if message_includes e ''API key'' \<or> status e = Some 403 then Configuration
      else if message_includes e ''quota'' \<or> status e = Some 429 then Capacity
      else Generic)"

text \<open>The responses of the catch block (lines 171 to 198): one for each branch.\<close>

definition error_response :: "error \<Rightarrow> NextResponse" where
  "error_response e =
     (case classify e of
        Configuration \<Rightarrow>
          \<lparr>body = ErrorBody ''Configuration issue with AI service'' ''API key problem'' None,
           response_status = 500\<rparr>
      | Capacity \<Rightarrow>
          \<lparr>body = ErrorBody ''Service temporarily unavailable due to quota limits''
                   ''Try again later'' None,
           response_status = 503\<rparr>
      | Generic \<Rightarrow>
          \<lparr>body = ErrorBody ''Chat service temporarily unavailable''
                   (case message e of
                      None \<Rightarrow> ''Unknown error''
                    | Some m \<Rightarrow> if m \<noteq> [] then m else ''Unknown error'')
                   (Some (constructor_name e)),
           response_status = 500\<rparr>)"

text \<open>The catch block of the handler. Before the tests it logs the error, the third time
  as \<^verbatim>\<open>JSON.stringify(error, null, 2)\<close>: when that throws, the exception leaves the
  catch block and no response is made.\<close>

definition catch_block :: "error \<Rightarrow> error + NextResponse" where
  "catch_block e =
     (case stringify_throws e of
        Some msg \<Rightarrow> Inl (TypeError msg)
      | None \<Rightarrow> Inr (error_response e))"

subsection \<open>The handler\<close>

text \<open>\<^verbatim>\<open>const { question, history } = await req.json()\<close>: destructuring \<^verbatim>\<open>null\<close> throws.
  (The texts of the TypeErrors are those of V8; the handler passes them on in the
  \<^verbatim>\<open>details\<close> of the generic response and tests them for the two phrases of the catch
  block, which none of them contains.)\<close>

definition destructure :: "json \<Rightarrow> error + json \<times> json" where
  "destructure b =
     (if b = JNull then
        Inl (TypeError
          ''Cannot destructure property 'question' of '(intermediate value)' as it is null.'')
      else if b = JUndefined then
        Inl (TypeError
          ''Cannot destructure property 'question' of '(intermediate value)' as it is undefined.'')
      else Inr (property b ''question'', property b ''history''))"

text \<open>The body of the \<^verbatim>\<open>try\<close> block. \<open>req_json\<close> is what \<^verbatim>\<open>await req.json()\<close> gives: the
  parsed body, or the error of a body that does not parse. The result is the answer, or
  the first exception.\<close>

definition try_block ::
  "('w, 'v) services \<Rightarrow> error + json \<Rightarrow> 'w \<Rightarrow> (error + string) \<times> 'w"
where
  "try_block svc req_json w1 =
     (case req_json of
        Inl e \<Rightarrow> (Inl e, w1)
      | Inr b \<Rightarrow>
     (case destructure b of
        Inl e \<Rightarrow> (Inl e, w1)
      | Inr (question, history) \<Rightarrow>
     (case formattedHistory history of
        Inl e \<Rightarrow> (Inl e, w1)
      | Inr formatted \<Rightarrow>
     (case rewrite_prompt (userHistory formatted) question of
        Inl e \<Rightarrow> (Inl e, w1)
      | Inr prompt \<Rightarrow>
     (case generateContent svc (rewrite_request prompt) w1 of
        (Inl e, w2) \<Rightarrow> (Inl e, w2)
      | (Inr rewriteResponse, w2) \<Rightarrow>
     (let enhanced = enhancedQuestion (response_text rewriteResponse) question;
          final = replace_last formatted enhanced
      in
     (case embedQuery svc enhanced w2 of
        (Inl e, w3) \<Rightarrow> (Inl e, w3)
      | (Inr queryVector, w3) \<Rightarrow>
     (case query svc \<lparr>topK = 10, vector = queryVector, includeMetadata = True\<rparr> w3 of
        (Inl e, w4) \<Rightarrow> (Inl e, w4)
      | (Inr searchResults, w4) \<Rightarrow>
     (case generateContent svc (answer_request final (context_of searchResults)) w4 of
        (Inl e, w5) \<Rightarrow> (Inl e, w5)
      | (Inr response, w5) \<Rightarrow> (Inr (answer response), w5))))))))))"

text \<open>What a call of \<^verbatim>\<open>POST\<close> comes to: a response, or a rejection that nothing caught
  (the session lookup runs before the \<^verbatim>\<open>try\<close>, and the catch block can throw).\<close>

datatype outcome =
    Responded NextResponse
  | Rejected error

definition caught :: "error \<Rightarrow> outcome" where
  "caught e = (case catch_block e of Inl thrown \<Rightarrow> Rejected thrown | Inr r \<Rightarrow> Responded r)"

definition POST :: "('w, 'v) services \<Rightarrow> error + json \<Rightarrow> 'w \<Rightarrow> outcome \<times> 'w" where
  "POST svc req_json w0 =
     (case getServerSession svc w0 of
        (Inl e, w1) \<Rightarrow> (Rejected e, w1)
      | (Inr session, w1) \<Rightarrow>
          (case try_block svc req_json w1 of
             (Inr a, w) \<Rightarrow> (Responded \<lparr>body = AnswerBody a, response_status = 200\<rparr>, w)
           | (Inl e, w) \<Rightarrow> (caught e, w)))"

subsection \<open>Observing the calls of the generative service\<close>

text \<open>The same services over a world that also keeps, in order, the requests with which
  \<^verbatim>\<open>generateContent\<close> was invoked. The handler cannot tell the difference; the record
  serves to state with which requests it invoked the service.\<close>

definition recording ::
  "('w, 'v) services \<Rightarrow> ('w \<times> GenerateContentRequest list, 'v) services"
where
  "recording svc =
     \<lparr>getServerSession =
        (\<lambda>(w, seen). case getServerSession svc w of (r, w') \<Rightarrow> (r, (w', seen))),
      generateContent =
        (\<lambda>req (w, seen). case generateContent svc req w of (r, w') \<Rightarrow> (r, (w', seen @ [req]))),
      embedQuery =
        (\<lambda>q (w, seen). case embedQuery svc q w of (r, w') \<Rightarrow> (r, (w', seen))),
      query =
        (\<lambda>opts (w, seen). case query svc opts w of (r, w') \<Rightarrow> (r, (w', seen)))\<rparr>"

subsection \<open>Scenarios\<close>

text \<open>Errors as the generative service raises them, and operations over a world that
  counts the invocations: the operations of the scenarios in which the theorems below
  are instantiated.\<close>

definition model_overloaded :: error where
  "model_overloaded =
     \<lparr>message = Some ''The model is overloaded. Please try again later.'',
      status = Some 503, constructor_name = ''ApiError'',
      stringify_throws = None\<rparr>"

definition invalid_argument :: error where
  "invalid_argument =
     \<lparr>message = Some ''Request contains an invalid argument.'',
      status = Some 400, constructor_name = ''ApiError'',
      stringify_throws = None\<rparr>"

definition api_key_invalid :: error where
  "api_key_invalid =
     \<lparr>message = Some ''API key not valid. Please pass a valid API key.'',
      status = Some 400, constructor_name = ''ApiError'',
      stringify_throws = None\<rparr>"

definition permission_denied :: error where
  "permission_denied =
     \<lparr>message = Some ''The caller does not have permission'',
      status = Some 403, constructor_name = ''ApiError'',
      stringify_throws = None\<rparr>"

definition quota_exceeded :: error where
  "quota_exceeded =
     \<lparr>message = Some ''You exceeded your current quota, please check your plan.'',
      status = Some 429, constructor_name = ''ApiError'',
      stringify_throws = None\<rparr>"

definition api_key_quota_exceeded :: error where
  "api_key_quota_exceeded =
     \<lparr>message = Some ''The quota of this API key is exhausted.'',
      status = Some 429, constructor_name = ''ApiError'',
      stringify_throws = None\<rparr>"

text \<open>A failure of the network layer whose cause refers back to it.\<close>

definition circular_failure :: error where
  "circular_failure =
     \<lparr>message = Some ''fetch failed'', status = None, constructor_name = ''TypeError'',
      stringify_throws = Some ''Converting circular structure to JSON''\<rparr>"

definition user_turn :: "string \<Rightarrow> ChatHistory" where
  "user_turn t = \<lparr>role = JStr ''user'', parts_0_text = JStr t\<rparr>"

definition model_turn :: "string \<Rightarrow> ChatHistory" where
  "model_turn t = \<lparr>role = JStr ''model'', parts_0_text = JStr t\<rparr>"

text \<open>A match of the vector index whose metadata holds the given text.\<close>

definition text_match :: "string \<Rightarrow> match" where
  "text_match t = \<lparr>metadata = Some [(''source'', MString ''charaka.pdf''), (''text'', MString t)]\<rparr>"

text \<open>Services over a world that counts the invocations of the generative service: the
  invocation numbered \<open>k\<close> (from 0) is rejected with status 503, every other one returns
  a response with the given text; the session lookup and the embedding succeed, and the
  vector index returns the given matches.\<close>

definition scripted :: "nat \<Rightarrow> string option \<Rightarrow> match list option \<Rightarrow> (nat, nat list) services" where
  "scripted k reply ms =
     \<lparr>getServerSession = (\<lambda>n. (Inr (), n)),
      generateContent =
        (\<lambda>req n. (if n = k then Inl model_overloaded else Inr \<lparr>response_text = reply\<rparr>, Suc n)),
      embedQuery = (\<lambda>q n. (Inr [12, 7, 3], n)),
      query = (\<lambda>opts n. (Inr \<lparr>matches = ms\<rparr>, n))\<rparr>"

text \<open>Services whose generative service rejects every invocation with the given error.\<close>

definition rejecting :: "error \<Rightarrow> (nat, nat list) services" where
  "rejecting e =
     \<lparr>getServerSession = (\<lambda>n. (Inr (), n)),
      generateContent = (\<lambda>req n. (Inl e, Suc n)),
      embedQuery = (\<lambda>q n. (Inr [12, 7, 3], n)),
      query = (\<lambda>opts n. (Inr \<lparr>matches = None\<rparr>, n))\<rparr>"

text \<open>The request bodies \<^verbatim>\<open>{"question": "What helps with stress?", "history": h}\<close> and
  \<^verbatim>\<open>{"question": "What helps with stress?"}\<close>.\<close>

definition stress_request :: "json \<Rightarrow> json" where
  "stress_request h = JObj [(''question'', JStr ''What helps with stress?''), (''history'', h)]"

definition stress_request_without_history :: json where
  "stress_request_without_history = JObj [(''question'', JStr ''What helps with stress?'')]"

definition overloaded_until :: "nat \<Rightarrow> nat \<Rightarrow> (error + string) \<times> nat" where
  "overloaded_until k n = (if n < k then Inl model_overloaded else Inr ''done'', Suc n)"

definition always_failing :: "error \<Rightarrow> nat \<Rightarrow> (error + string) \<times> nat" where
  "always_failing e n = (Inl e, Suc n)"

section \<open>Properties\<close>

subsection \<open>The retry helper\<close>

declare withRetry_loop.simps [simp del]



text \<open>
  Claim C3. With \<open>maxRetries = 3\<close>, an operation that fails with status 503 on its
  first two invocations and succeeds on the third makes \<^verbatim>\<open>withRetry\<close> return the success
  value after exactly 3 invocations (and two sleeps, of \<open>delayMs\<close> and of twice that). An
  operation whose failure has another status is invoked exactly once, and that error is
  thrown again unchanged; this holds for every attempt budget of at least 1, and needs
  the failure of the first invocation only.
\<close>

theorem withRetry_retries_transient_only:
  "(fn w0 = (Inl e1, w1) \<and> status e1 = Some 503 \<and> fn w1 = (Inl e2, w2) \<and> status e2 = Some 503
      \<and> fn w2 = (Inr v, w3)
     \<longrightarrow> withRetry fn 3 delayMs w0
           = (Inr v, \<lparr>world = w3, invocations = 3, sleeps = [delayMs, delayMs * 2]\<rparr>))
   \<and> (1 \<le> maxRetries \<and> g u0 = (Inl e, u1) \<and> status e \<noteq> Some 503
     \<longrightarrow> withRetry g maxRetries delayMs u0
           = (Inl (Rethrown e), \<lparr>world = u1, invocations = 1, sleeps = []\<rparr>))"
  by (simp add: withRetry_def withRetry_loop.simps [of _ _ 1] withRetry_loop.simps [of _ _ 2]
      withRetry_loop.simps [of _ _ 3])

theorem withRetry_retries_transient_only_witness:
  "withRetry (overloaded_until 2) 3 1000 0
     = (Inr ''done'', \<lparr>world = 3, invocations = 3, sleeps = [1000, 2000]\<rparr>)
   \<and> withRetry (always_failing invalid_argument) 3 1000 0
     = (Inl (Rethrown invalid_argument), \<lparr>world = 1, invocations = 1, sleeps = []\<rparr>)"
  using withRetry_retries_transient_only
    [where fn = "overloaded_until 2" and ?w0.0 = 0 and ?e1.0 = model_overloaded and ?w1.0 = 1
       and ?e2.0 = model_overloaded and ?w2.0 = 2 and v = "''done''" and ?w3.0 = 3
       and delayMs = 1000 and maxRetries = 3 and g = "always_failing invalid_argument"
       and ?u0.0 = 0 and e = invalid_argument and ?u1.0 = 1]
  by (simp add: overloaded_until_def always_failing_def model_overloaded_def invalid_argument_def)



subsection \<open>Strings\<close>

declare strip_leading.simps [simp del]

lemma strip_leading_Nil: "strip_leading ws [] = []"
  by (auto simp: strip_leading.simps [of ws "[]"] find_Some_iff split: option.splits)

lemma strip_leading_idem: "strip_leading ws (strip_leading ws s) = strip_leading ws s"
proof (induction ws s rule: strip_leading.induct)
  case (1 ws s)
  show ?case
  proof (cases "List.find (\<lambda>w. w \<noteq> [] \<and> prefix w s) ws")
    case None
    then have "strip_leading ws s = s" by (simp add: strip_leading.simps [of ws s])
    then show ?thesis by simp
  next
    case (Some w)
    then have "strip_leading ws s = strip_leading ws (drop (length w) s)"
      by (simp add: strip_leading.simps [of ws s])
    with 1 Some show ?thesis by simp
  qed
qed

lemma strip_leading_Nil_concat:
  "strip_leading ws s = [] \<Longrightarrow> \<exists>cs. list_all (\<lambda>c. c \<in> set ws) cs \<and> s = concat cs"
proof (induction ws s rule: strip_leading.induct)
  case (1 ws s)
  show ?case
  proof (cases "List.find (\<lambda>w. w \<noteq> [] \<and> prefix w s) ws")
    case None
    with 1(2) have "s = []" by (simp add: strip_leading.simps [of ws s])
    then have "list_all (\<lambda>c. c \<in> set ws) [] \<and> s = concat []" by simp
    then show ?thesis by blast
  next
    case (Some w)
    then have w: "w \<in> set ws" "prefix w s"
      by (auto simp: find_Some_iff)
    from Some 1(2) have "strip_leading ws (drop (length w) s) = []"
      by (simp add: strip_leading.simps [of ws s])
    with 1(1) Some obtain cs where cs: "list_all (\<lambda>c. c \<in> set ws) cs" "drop (length w) s = concat cs"
      by blast
    from w(2) have "s = w @ drop (length w) s" by (auto simp: prefix_def)
    with cs w(1) have "list_all (\<lambda>c. c \<in> set ws) (w # cs) \<and> s = concat (w # cs)" by simp
    then show ?thesis by blast
  qed
qed

text \<open>The first byte of a white space character tells its length, so at most one of
  them starts a given string.\<close>

lemma white_space_length:
  "w \<in> set white_space \<Longrightarrow>
     w \<noteq> [] \<and> length w = (if hd w = CHR 0xC2 then 2
                 else if hd w = CHR 0xE1 \<or> hd w = CHR 0xE2 \<or> hd w = CHR 0xE3 \<or> hd w = CHR 0xEF
                 then 3 else 1)"
  by (auto simp: white_space_def)

lemma white_space_unambiguous:
  assumes "w \<in> set white_space" "v \<in> set white_space" "prefix w s" "prefix v s"
  shows "w = v"
proof -
  from assms(1,3) white_space_length [of w] have "hd w = hd s"
    by (auto simp: prefix_def)
  moreover from assms(2,4) white_space_length [of v] have "hd v = hd s"
    by (auto simp: prefix_def)
  ultimately have "length w = length v"
    using white_space_length [OF assms(1)] white_space_length [OF assms(2)] by simp
  with assms(3,4) show ?thesis
    by (metis prefix_def append_eq_append_conv)
qed

lemma strip_leading_white_space_append:
  assumes "w \<in> set white_space"
  shows "strip_leading white_space (w @ t) = strip_leading white_space t"
proof -
  from assms have ne: "w \<noteq> []" using white_space_length by blast
  with assms have "List.find (\<lambda>v. v \<noteq> [] \<and> prefix v (w @ t)) white_space \<noteq> None"
    by (auto simp: find_None_iff)
  then obtain v where v: "List.find (\<lambda>v. v \<noteq> [] \<and> prefix v (w @ t)) white_space = Some v"
    by blast
  then have "v \<in> set white_space" "prefix v (w @ t)"
    by (auto simp: find_Some_iff)
  with assms have "v = w"
    using white_space_unambiguous [of v w "w @ t"] by simp
  with v show ?thesis
    by (simp add: strip_leading.simps [of white_space "w @ t"])
qed

lemma strip_leading_whitespace_only:
  "whitespace_only t \<Longrightarrow> strip_leading white_space t = []"
proof -
  have "list_all (\<lambda>c. c \<in> set white_space) cs \<Longrightarrow> strip_leading white_space (concat cs) = []" for cs
    by (induction cs) (simp_all add: strip_leading_Nil strip_leading_white_space_append)
  then show "whitespace_only t \<Longrightarrow> strip_leading white_space t = []"
    by (auto simp: whitespace_only_def)
qed

lemma whitespace_only_rev:
  assumes "list_all (\<lambda>c. c \<in> set (map rev white_space)) cs"
  shows "whitespace_only (rev (concat cs))"
proof -
  from assms have "list_all (\<lambda>c. c \<in> set white_space) (map rev (rev cs))"
    by (auto simp: list_all_iff)
  moreover have "rev (concat cs) = concat (map rev (rev cs))"
    by (rule rev_concat)
  ultimately show ?thesis
    unfolding whitespace_only_def by blast
qed

text \<open>The test \<^verbatim>\<open>t.trim().length > 0\<close> fails exactly on the whitespace-only texts.\<close>

lemma trim_Nil_iff: "trim t = [] \<longleftrightarrow> whitespace_only t"
proof
  assume "trim t = []"
  then have "strip_leading (map rev white_space) (rev (strip_leading white_space t)) = []"
    by (simp add: trim_def)
  then obtain cs where "list_all (\<lambda>c. c \<in> set (map rev white_space)) cs"
      and "rev (strip_leading white_space t) = concat cs"
    using strip_leading_Nil_concat by blast
  then have "whitespace_only (strip_leading white_space t)"
    using whitespace_only_rev [of cs] by (metis rev_rev_ident)
  then have "strip_leading white_space (strip_leading white_space t) = []"
    by (rule strip_leading_whitespace_only)
  then have "strip_leading white_space t = []"
    by (simp add: strip_leading_idem)
  then show "whitespace_only t"
    using strip_leading_Nil_concat [of white_space t] by (simp add: whitespace_only_def)
next
  assume "whitespace_only t"
  then have "strip_leading white_space t = []"
    by (rule strip_leading_whitespace_only)
  then show "trim t = []"
    by (simp add: trim_def strip_leading_Nil)
qed

lemma prefix_take: "prefix p s \<longleftrightarrow> take (length p) s = p"
  by (metis append_eq_conv_conj prefix_def append_take_drop_id)

text \<open>\<^const>\<open>str_includes\<close> finds the pattern exactly when it occurs as a contiguous part.\<close>

lemma str_includes_sublist: "str_includes s p \<longleftrightarrow> sublist p s"
proof (induction s)
  case Nil
  then show ?case by simp
next
  case (Cons c s)
  then show ?case
    by (simp add: sublist_Cons_right prefix_take del: take_Suc_Cons)
qed

lemma message_includes_mentions: "message_includes e phrase \<longleftrightarrow> mentions e phrase"
  by (simp add: message_includes_def mentions_def str_includes_sublist split: option.splits)

subsection \<open>The rewritten question\<close>

text \<open>
  Claim C7. The rewritten question is the text the generative service returned when that
  text is non-empty; when the service returned no text or the empty text it is the
  follow-up question as received, provided that is truthy (for a string: non-empty); and
  when the follow-up question is falsy too (the empty string, or absent) it is the
  literal \<^verbatim>\<open>No question generated.\<close>
\<close>

theorem enhancedQuestion_chain:
  "(t \<noteq> [] \<longrightarrow> enhancedQuestion (Some t) followUpQuestion = JStr t)
   \<and> ((rewritten = None \<or> rewritten = Some []) \<and> truthy followUpQuestion
        \<longrightarrow> enhancedQuestion rewritten followUpQuestion = followUpQuestion)
   \<and> ((rewritten = None \<or> rewritten = Some []) \<and> \<not> truthy followUpQuestion
        \<longrightarrow> enhancedQuestion rewritten followUpQuestion = JStr ''No question generated.'')
   \<and> ((rewritten = None \<or> rewritten = Some []) \<and> q \<noteq> []
        \<longrightarrow> enhancedQuestion rewritten (JStr q) = JStr q)
   \<and> ((rewritten = None \<or> rewritten = Some [])
        \<longrightarrow> enhancedQuestion rewritten (JStr []) = JStr ''No question generated.''
          \<and> enhancedQuestion rewritten JUndefined = JStr ''No question generated.'')"
  by (auto simp: enhancedQuestion_def js_or_def)

theorem enhancedQuestion_chain_witness:
  "enhancedQuestion (Some ''What helps with stress?'') (JStr ''and stress?'')
     = JStr ''What helps with stress?''
   \<and> enhancedQuestion None (JStr ''and stress?'') = JStr ''and stress?''
   \<and> enhancedQuestion None (JStr []) = JStr ''No question generated.''
   \<and> enhancedQuestion None JUndefined = JStr ''No question generated.''"
  using enhancedQuestion_chain
    [where t = "''What helps with stress?''" and followUpQuestion = "JStr ''and stress?''"
       and rewritten = None and q = "''and stress?''"]
  by simp

text \<open>
  Claim C4. When the formatted history ends with an entry of role \<^verbatim>\<open>user\<close>, the history
  after the rewrite has the same length: it is the history without its last entry,
  followed by the user entry of the rewritten question, and so is not the history with
  the rewritten entry added after the raw one. When the history is empty or ends with an
  entry of another role, the rewritten entry is appended and the length grows by one. In
  every case the result ends with the user entry whose text is the rewritten question.
\<close>

theorem replace_last_shape:
  "(formatted \<noteq> [] \<and> role (last formatted) = JStr ''user''
      \<longrightarrow> length (replace_last formatted enhanced) = length formatted
        \<and> replace_last formatted enhanced
            = butlast formatted @ [\<lparr>role = JStr ''user'', parts_0_text = enhanced\<rparr>]
        \<and> replace_last formatted enhanced
            \<noteq> formatted @ [\<lparr>role = JStr ''user'', parts_0_text = enhanced\<rparr>])
   \<and> (formatted = [] \<or> role (last formatted) \<noteq> JStr ''user''
      \<longrightarrow> length (replace_last formatted enhanced) = Suc (length formatted)
        \<and> replace_last formatted enhanced
            = formatted @ [\<lparr>role = JStr ''user'', parts_0_text = enhanced\<rparr>])
   \<and> replace_last formatted enhanced \<noteq> []
   \<and> last (replace_last formatted enhanced) = \<lparr>role = JStr ''user'', parts_0_text = enhanced\<rparr>"
proof -
  let ?new = "\<lparr>role = JStr ''user'', parts_0_text = enhanced\<rparr>"
  have pop: "replace_last formatted enhanced = butlast formatted @ [?new]"
    if "formatted \<noteq> []" "role (last formatted) = JStr ''user''"
    using that by (simp add: replace_last_def last_conv_nth)
  have push: "replace_last formatted enhanced = formatted @ [?new]"
    if "formatted = [] \<or> role (last formatted) \<noteq> JStr ''user''"
    using that by (auto simp: replace_last_def last_conv_nth)
  have differ: "butlast formatted @ [?new] \<noteq> formatted @ [?new]" if "formatted \<noteq> []"
  proof
    assume "butlast formatted @ [?new] = formatted @ [?new]"
    then have "length (butlast formatted @ [?new]) = length (formatted @ [?new])" by (rule arg_cong)
    with that show False by simp
  qed
  have "replace_last formatted enhanced \<noteq> []"
    and "last (replace_last formatted enhanced) = ?new"
    by (simp_all add: replace_last_def)
  with pop push differ show ?thesis by auto
qed

theorem replace_last_shape_witness:
  "replace_last [model_turn ''Namaste!'', user_turn ''and for sleep?''] (JStr ''What helps with sleep?'')
     = [model_turn ''Namaste!'', user_turn ''What helps with sleep?'']
   \<and> replace_last [model_turn ''Namaste!''] (JStr ''What helps with sleep?'')
     = [model_turn ''Namaste!'', user_turn ''What helps with sleep?'']
   \<and> replace_last [] (JStr ''What helps with sleep?'') = [user_turn ''What helps with sleep?'']"
  using
    replace_last_shape [of "[model_turn ''Namaste!'', user_turn ''and for sleep?'']"
      "JStr ''What helps with sleep?''"]
    replace_last_shape [of "[model_turn ''Namaste!'']" "JStr ''What helps with sleep?''"]
    replace_last_shape [of "[]" "JStr ''What helps with sleep?''"]
  by (simp add: user_turn_def model_turn_def)

subsection \<open>The context block\<close>

text \<open>
  Claim C6. The context block is made of the \<^verbatim>\<open>text\<close> metadata of the matches, in their
  ranked order, without the texts that are whitespace-only (the empty text among them),
  joined by the separator of two newlines, three dashes and two newlines. A match
  without metadata or without a \<^verbatim>\<open>text\<close> field counts as the empty text, a string field
  as itself. Matches with the texts \<^verbatim>\<open>""\<close>, two spaces, \<^verbatim>\<open>A\<close> and \<^verbatim>\<open>B\<close> give \<^verbatim>\<open>A\<close>, the
  separator, \<^verbatim>\<open>B\<close>. White space is all that \<^verbatim>\<open>trim\<close> removes: a text of the 25 white
  space characters and line terminators of ECMAScript, one after the other, is
  discarded, and so is a text of one U+2003 (em space); a text of one U+200B (zero
  width space) and one of U+0085 (next line), which are not white space, are kept, and a
  text with white space around other characters is kept as it is, untrimmed.
\<close>

theorem context_of_joins_nonblank_texts:
  \<open>context_of searchResults
     = js_join ''\<newline>\<newline>---\<newline>\<newline>''
         (filter (\<lambda>t. \<not> whitespace_only t)
            (map match_text (case matches searchResults of None \<Rightarrow> [] | Some ms \<Rightarrow> ms)))
   \<and> match_text \<lparr>metadata = None\<rparr> = []
   \<and> (map_of md ''text'' = None \<longrightarrow> match_text \<lparr>metadata = Some md\<rparr> = [])
   \<and> (map_of md ''text'' = Some (MString s) \<longrightarrow> match_text \<lparr>metadata = Some md\<rparr> = s)
   \<and> context_of \<lparr>matches = Some [text_match [], text_match ''  '', text_match ''A'', text_match ''B'']\<rparr>
       = ''A\<newline>\<newline>---\<newline>\<newline>B''
   \<and> context_of
        \<lparr>matches = Some
           [text_match
              [CHR 0x09, CHR 0x0A, CHR 0x0B, CHR 0x0C, CHR 0x0D, CHR 0x20, CHR 0xC2, CHR 0xA0,
               CHR 0xE1, CHR 0x9A, CHR 0x80, CHR 0xE2, CHR 0x80, CHR 0x80,
               CHR 0xE2, CHR 0x80, CHR 0x81, CHR 0xE2, CHR 0x80, CHR 0x82,
               CHR 0xE2, CHR 0x80, CHR 0x83, CHR 0xE2, CHR 0x80, CHR 0x84,
               CHR 0xE2, CHR 0x80, CHR 0x85, CHR 0xE2, CHR 0x80, CHR 0x86,
               CHR 0xE2, CHR 0x80, CHR 0x87, CHR 0xE2, CHR 0x80, CHR 0x88,
               CHR 0xE2, CHR 0x80, CHR 0x89, CHR 0xE2, CHR 0x80, CHR 0x8A,
               CHR 0xE2, CHR 0x80, CHR 0xA8, CHR 0xE2, CHR 0x80, CHR 0xA9,
               CHR 0xE2, CHR 0x80, CHR 0xAF, CHR 0xE2, CHR 0x81, CHR 0x9F,
               CHR 0xE3, CHR 0x80, CHR 0x80, CHR 0xEF, CHR 0xBB, CHR 0xBF],
            text_match [CHR 0xE2, CHR 0x80, CHR 0x83],
            text_match [CHR 0xE2, CHR 0x80, CHR 0x8B],
            text_match [CHR 0xC2, CHR 0x85],
            text_match '' A b  '']\<rparr>
       = [CHR 0xE2, CHR 0x80, CHR 0x8B] @ ''\<newline>\<newline>---\<newline>\<newline>'' @ [CHR 0xC2, CHR 0x85]
         @ ''\<newline>\<newline>---\<newline>\<newline>'' @ '' A b  ''\<close>
proof -
  have general: \<open>context_of searchResults
     = js_join ''\<newline>\<newline>---\<newline>\<newline>''
         (filter (\<lambda>t. \<not> whitespace_only t)
            (map match_text (case matches searchResults of None \<Rightarrow> [] | Some ms \<Rightarrow> ms)))\<close>
    by (simp add: context_of_def trim_Nil_iff)
  have fields: \<open>match_text \<lparr>metadata = None\<rparr> = []
      \<and> (map_of md ''text'' = None \<longrightarrow> match_text \<lparr>metadata = Some md\<rparr> = [])
      \<and> (map_of md ''text'' = Some (MString s) \<longrightarrow> match_text \<lparr>metadata = Some md\<rparr> = s)\<close>
    by (simp add: match_text_def)
  have example: \<open>context_of
      \<lparr>matches = Some [text_match [], text_match ''  '', text_match ''A'', text_match ''B'']\<rparr>
      = ''A\<newline>\<newline>---\<newline>\<newline>B''\<close>
    by code_simp
  have unicode: \<open>context_of
        \<lparr>matches = Some
           [text_match
              [CHR 0x09, CHR 0x0A, CHR 0x0B, CHR 0x0C, CHR 0x0D, CHR 0x20, CHR 0xC2, CHR 0xA0,
               CHR 0xE1, CHR 0x9A, CHR 0x80, CHR 0xE2, CHR 0x80, CHR 0x80,
               CHR 0xE2, CHR 0x80, CHR 0x81, CHR 0xE2, CHR 0x80, CHR 0x82,
               CHR 0xE2, CHR 0x80, CHR 0x83, CHR 0xE2, CHR 0x80, CHR 0x84,
               CHR 0xE2, CHR 0x80, CHR 0x85, CHR 0xE2, CHR 0x80, CHR 0x86,
               CHR 0xE2, CHR 0x80, CHR 0x87, CHR 0xE2, CHR 0x80, CHR 0x88,
               CHR 0xE2, CHR 0x80, CHR 0x89, CHR 0xE2, CHR 0x80, CHR 0x8A,
               CHR 0xE2, CHR 0x80, CHR 0xA8, CHR 0xE2, CHR 0x80, CHR 0xA9,
               CHR 0xE2, CHR 0x80, CHR 0xAF, CHR 0xE2, CHR 0x81, CHR 0x9F,
               CHR 0xE3, CHR 0x80, CHR 0x80, CHR 0xEF, CHR 0xBB, CHR 0xBF],
            text_match [CHR 0xE2, CHR 0x80, CHR 0x83],
            text_match [CHR 0xE2, CHR 0x80, CHR 0x8B],
            text_match [CHR 0xC2, CHR 0x85],
            text_match '' A b  '']\<rparr>
       = [CHR 0xE2, CHR 0x80, CHR 0x8B] @ ''\<newline>\<newline>---\<newline>\<newline>'' @ [CHR 0xC2, CHR 0x85]
         @ ''\<newline>\<newline>---\<newline>\<newline>'' @ '' A b  ''\<close>
    by code_simp
  from general fields example unicode show ?thesis by (intro conjI) blast+
qed

theorem context_of_joins_nonblank_texts_witness:
  \<open>match_text \<lparr>metadata = Some [(''source'', MString ''charaka.pdf'')]\<rparr> = []
   \<and> match_text (text_match ''Ashwagandha calms the mind.'') = ''Ashwagandha calms the mind.''
   \<and> context_of \<lparr>matches = None\<rparr> = []\<close>
  using
    context_of_joins_nonblank_texts
      [where md = "[(''source'', MString ''charaka.pdf'')]" and searchResults = "\<lparr>matches = None\<rparr>"]
    context_of_joins_nonblank_texts
      [where md = "[(''source'', MString ''charaka.pdf''), (''text'', MString ''Ashwagandha calms the mind.'')]"
         and s = "''Ashwagandha calms the mind.''"]
  by (simp add: text_match_def)

subsection \<open>The error responses\<close>

text \<open>
  Claim C2, as the specification states it, fails in three places. The statuses of the
  categories are not pairwise distinct: an invalid API key (configuration) and an invalid
  argument (generic) are both answered with status 500. A failure that meets the test of
  the capacity category, by its message and by its status 429, is put in the
  configuration category when its message also mentions the API key, since the tests are
  tried in order. And not every failure gets a category: on an error that
  \<^verbatim>\<open>JSON.stringify\<close> cannot print, the logging that precedes the tests throws, and the
  handler rejects without a response.
\<close>

theorem classify_statuses_not_distinct:
  "classify api_key_invalid = Configuration
   \<and> classify invalid_argument = Generic
   \<and> catch_block api_key_invalid
       = Inr \<lparr>body = ErrorBody ''Configuration issue with AI service'' ''API key problem'' None,
              response_status = 500\<rparr>
   \<and> catch_block invalid_argument
       = Inr \<lparr>body = ErrorBody ''Chat service temporarily unavailable''
                      ''Request contains an invalid argument.'' (Some ''ApiError''),
              response_status = 500\<rparr>
   \<and> mentions api_key_quota_exceeded ''quota''
   \<and> status api_key_quota_exceeded = Some 429
   \<and> classify api_key_quota_exceeded = Configuration
   \<and> catch_block circular_failure = Inl (TypeError ''Converting circular structure to JSON'')
   \<and> POST (rejecting circular_failure) (Inr (stress_request (JArr []))) 0
       = (Rejected (TypeError ''Converting circular structure to JSON''), 1)"
proof -
  have "mentions api_key_quota_exceeded ''quota''"
    unfolding message_includes_mentions [symmetric]
    by (simp add: message_includes_def api_key_quota_exceeded_def)
  moreover have "POST (rejecting circular_failure) (Inr (stress_request (JArr []))) 0
       = (Rejected (TypeError ''Converting circular structure to JSON''), 1)"
    by (simp add: POST_def try_block_def destructure_def formattedHistory_def js_or_def
        userHistory_def rewrite_prompt_def join_values_def ToString_def caught_def
        catch_block_def rejecting_def stress_request_def circular_failure_def)
  ultimately show ?thesis
    by (simp add: classify_def catch_block_def error_response_def message_includes_def
        api_key_invalid_def invalid_argument_def api_key_quota_exceeded_def
        circular_failure_def)
qed

text \<open>
  Claim C2, amended. Every failure that the catch block can log, that is, every
  \<^verbatim>\<open>Error\<close>-like object on which \<^verbatim>\<open>JSON.stringify\<close> does not throw, is put in exactly one
  category, by the first test that holds: configuration when the message mentions
  \<^verbatim>\<open>API key\<close> or the status is 403; otherwise capacity when the message mentions \<^verbatim>\<open>quota\<close>
  or the status is 429; otherwise generic. It is answered by its category: the capacity
  category with status 503, the configuration and the generic category both with status
  500; the three categories are told apart by the error text of the body, which is fixed
  for each category and different for each.
\<close>

theorem classify_first_match:
  "stringify_throws e = None \<longrightarrow>
     (classify e = Configuration \<longleftrightarrow> mentions e ''API key'' \<or> status e = Some 403)
     \<and> (classify e = Capacity \<longleftrightarrow>
          \<not> (mentions e ''API key'' \<or> status e = Some 403)
          \<and> (mentions e ''quota'' \<or> status e = Some 429))
     \<and> (classify e = Generic \<longleftrightarrow>
          \<not> (mentions e ''API key'' \<or> status e = Some 403)
          \<and> \<not> (mentions e ''quota'' \<or> status e = Some 429))
     \<and> (\<exists>r. catch_block e = Inr r
          \<and> response_status r = (if classify e = Capacity then 503 else 500)
          \<and> (\<exists>d t. body r =
               ErrorBody
                 (case classify e of
                    Configuration \<Rightarrow> ''Configuration issue with AI service''
                  | Capacity \<Rightarrow> ''Service temporarily unavailable due to quota limits''
                  | Generic \<Rightarrow> ''Chat service temporarily unavailable'') d t)
          \<and> (classify e = Configuration \<longleftrightarrow>
               error_text (body r) = ''Configuration issue with AI service'')
          \<and> (classify e = Capacity \<longleftrightarrow>
               error_text (body r) = ''Service temporarily unavailable due to quota limits'')
          \<and> (classify e = Generic \<longleftrightarrow>
               error_text (body r) = ''Chat service temporarily unavailable''))"
  by (cases "classify e")
     (auto simp: classify_def catch_block_def error_response_def message_includes_mentions
        split: if_splits)

theorem classify_first_match_witness:
  "stringify_throws permission_denied = None
   \<and> stringify_throws api_key_invalid = None
   \<and> stringify_throws quota_exceeded = None
   \<and> stringify_throws invalid_argument = None
   \<and> classify permission_denied = Configuration
   \<and> classify api_key_invalid = Configuration
   \<and> classify quota_exceeded = Capacity
   \<and> classify invalid_argument = Generic
   \<and> map_sum id response_status (catch_block permission_denied) = Inr 500
   \<and> map_sum id response_status (catch_block quota_exceeded) = Inr 503
   \<and> map_sum id response_status (catch_block invalid_argument) = Inr 500"
  using classify_first_match [of permission_denied] classify_first_match [of api_key_invalid]
    classify_first_match [of quota_exceeded] classify_first_match [of invalid_argument]
  by (auto simp: permission_denied_def api_key_invalid_def quota_exceeded_def
      invalid_argument_def mentions_def message_includes_def
      str_includes_sublist [symmetric])

subsection \<open>The handler\<close>

lemmas handler_defs =
  POST_def try_block_def destructure_def formattedHistory_def js_or_def keeps_def
  format_entry_def get_def element_def userHistory_def rewrite_prompt_def join_values_def
  ToString_def rewrite_request_def enhancedQuestion_def replace_last_def context_of_def
  match_text_def answer_request_def system_instruction_def answer_def caught_def
  catch_block_def error_response_def
  classify_def message_includes_def TypeError_def

lemmas scenario_defs =
  scripted_def stress_request_def stress_request_without_history_def model_overloaded_def
  text_match_def user_turn_def model_turn_def

text \<open>
  Claim C1 says that both calls of the generative service go through \<^verbatim>\<open>withRetry\<close>. The
  handler calls \<^verbatim>\<open>ai.models.generateContent\<close> directly, both times, and \<^verbatim>\<open>withRetry\<close> is
  called nowhere. With a service whose first invocation is rejected with status 503 and
  whose later invocations succeed, the handler answers with the generic error response of
  status 500 after that single invocation; the same happens when it is the second
  invocation, the one for the answer, that is rejected. \<^verbatim>\<open>withRetry\<close> around the same call
  returns the response, after two invocations and one sleep.
\<close>

theorem POST_does_not_retry:
  "POST (scripted 0 (Some ''Try meditation.'') (Some [])) (Inr (stress_request (JArr []))) 0
     = (Responded
          \<lparr>body = ErrorBody ''Chat service temporarily unavailable''
                   ''The model is overloaded. Please try again later.'' (Some ''ApiError''),
           response_status = 500\<rparr>, 1)
   \<and> POST (scripted 1 (Some ''Try meditation.'') (Some [])) (Inr (stress_request (JArr []))) 0
     = (Responded
          \<lparr>body = ErrorBody ''Chat service temporarily unavailable''
                   ''The model is overloaded. Please try again later.'' (Some ''ApiError''),
           response_status = 500\<rparr>, 2)
   \<and> withRetry (generateContent (scripted 0 (Some ''Try meditation.'') (Some [])) req) 3 1000 0
     = (Inr \<lparr>response_text = Some ''Try meditation.''\<rparr>,
        \<lparr>world = 2, invocations = 2, sleeps = [1000]\<rparr>)"
  by (simp add: handler_defs scenario_defs withRetry_def withRetry_loop.simps [of _ _ 1]
      withRetry_loop.simps [of _ _ 2])

text \<open>For every service: a rejection of the rewrite call, whatever its status, ends the
  request with what the catch block makes of it after that one invocation, and so does a
  rejection of the answer call, after the two invocations.\<close>

lemma rewrite_rejection_is_final:
  assumes session: "getServerSession svc w0 = (Inr u, w1)"
    and body: "destructure b = Inr (question, history)"
    and hist: "formattedHistory history = Inr formatted"
    and prompt: "rewrite_prompt (userHistory formatted) question = Inr prompt"
    and rewrite: "generateContent svc (rewrite_request prompt) w1 = (Inl e, w2)"
  shows "POST (recording svc) (Inr b) (w0, [])
           = (caught e, (w2, [rewrite_request prompt]))"
proof -
  have "getServerSession (recording svc) (w0, []) = (Inr u, (w1, []))"
    by (simp add: recording_def session)
  moreover have "generateContent (recording svc) (rewrite_request prompt) (w1, [])
      = (Inl e, (w2, [rewrite_request prompt]))"
    by (simp add: recording_def rewrite)
  ultimately show ?thesis
    by (simp add: POST_def try_block_def body hist prompt)
qed

lemma answer_rejection_is_final:
  assumes session: "getServerSession svc w0 = (Inr u, w1)"
    and body: "destructure b = Inr (question, history)"
    and hist: "formattedHistory history = Inr formatted"
    and prompt: "rewrite_prompt (userHistory formatted) question = Inr prompt"
    and rewrite: "generateContent svc (rewrite_request prompt) w1 = (Inr rewriteResponse, w2)"
    and embed: "embedQuery svc (enhancedQuestion (response_text rewriteResponse) question) w2
           = (Inr queryVector, w3)"
    and retrieve: "query svc \<lparr>topK = 10, vector = queryVector, includeMetadata = True\<rparr> w3
           = (Inr searchResults, w4)"
    and generate: "generateContent svc
           (answer_request
              (replace_last formatted (enhancedQuestion (response_text rewriteResponse) question))
              (context_of searchResults)) w4
           = (Inl e, w5)"
  shows "POST (recording svc) (Inr b) (w0, [])
           = (caught e,
              (w5,
               [rewrite_request prompt,
                answer_request
                  (replace_last formatted (enhancedQuestion (response_text rewriteResponse) question))
                  (context_of searchResults)]))"
proof -
  let ?final = "replace_last formatted (enhancedQuestion (response_text rewriteResponse) question)"
  have "getServerSession (recording svc) (w0, []) = (Inr u, (w1, []))"
    by (simp add: recording_def session)
  moreover have "generateContent (recording svc) (rewrite_request prompt) (w1, [])
      = (Inr rewriteResponse, (w2, [rewrite_request prompt]))"
    by (simp add: recording_def rewrite)
  moreover have "embedQuery (recording svc)
        (enhancedQuestion (response_text rewriteResponse) question) (w2, [rewrite_request prompt])
      = (Inr queryVector, (w3, [rewrite_request prompt]))"
    by (simp add: recording_def embed)
  moreover have "query (recording svc) \<lparr>topK = 10, vector = queryVector, includeMetadata = True\<rparr>
        (w3, [rewrite_request prompt])
      = (Inr searchResults, (w4, [rewrite_request prompt]))"
    by (simp add: recording_def retrieve)
  moreover have "generateContent (recording svc)
        (answer_request ?final (context_of searchResults)) (w4, [rewrite_request prompt])
      = (Inl e, (w5, [rewrite_request prompt, answer_request ?final (context_of searchResults)]))"
    by (simp add: recording_def generate)
  ultimately show ?thesis
    by (simp add: POST_def try_block_def body hist prompt Let_def)
qed

text \<open>The filter's predicate throws on the entries with a role and a \<^verbatim>\<open>null\<close> first part,
  and on every other entry it says whether the entry has a role and a non-empty first
  text part.\<close>

lemma keeps_cases:
  "keeps msg =
     (if null_first_part msg then
        Inl (TypeError (''Cannot read properties of ''
              @ (case property msg ''parts'' of JArr (JUndefined # ps) \<Rightarrow> ''undefined'' | _ \<Rightarrow> ''null'')
              @ '' (reading 'text')''))
      else Inr (has_role_and_first_text msg))"
proof (cases "property msg ''parts''")
  case (JArr ps)
  then show ?thesis
    by (cases msg; cases ps)
       (auto simp: keeps_def null_first_part_def has_role_and_first_text_def get_def element_def)
qed (cases msg; simp add: keeps_def null_first_part_def has_role_and_first_text_def)+

lemma format_entry_kept:
  "has_role_and_first_text msg \<Longrightarrow> \<not> null_first_part msg \<Longrightarrow>
     format_entry msg = Inr (formatted_entry msg)"
  by (cases msg)
     (auto simp: has_role_and_first_text_def null_first_part_def format_entry_def
        formatted_entry_def get_def element_def split: json.splits list.splits)

lemma filter_throwing_total:
  "\<forall>x \<in> set xs. \<exists>b. p x = Inr b \<Longrightarrow>
     filter_throwing p xs = Inr (filter (\<lambda>x. p x = Inr True) xs)"
  by (induction xs) auto

lemma map_throwing_total:
  "\<forall>x \<in> set xs. f x = Inr (g x) \<Longrightarrow> map_throwing f xs = Inr (map g xs)"
  by (induction xs) auto

text \<open>On a history without such an entry the formatting raises no error: it keeps the
  entries with a role and a non-empty first text part, in their order, each with its role
  and the text of its first part only.\<close>

lemma formattedHistory_lenient:
  assumes "\<forall>msg \<in> set msgs. \<not> null_first_part msg"
  shows "formattedHistory (JArr msgs)
           = Inr (map formatted_entry (filter has_role_and_first_text msgs))"
proof -
  from assms have k: "\<forall>msg \<in> set msgs. keeps msg = Inr (has_role_and_first_text msg)"
    by (simp add: keeps_cases)
  then have "filter_throwing keeps msgs = Inr (filter (\<lambda>x. keeps x = Inr True) msgs)"
    by (intro filter_throwing_total) auto
  also have "filter (\<lambda>x. keeps x = Inr True) msgs = filter has_role_and_first_text msgs"
    using k by (intro filter_cong) auto
  finally have f: "filter_throwing keeps msgs = Inr (filter has_role_and_first_text msgs)" .
  have "map_throwing format_entry (filter has_role_and_first_text msgs)
          = Inr (map formatted_entry (filter has_role_and_first_text msgs))"
    using assms by (intro map_throwing_total) (auto simp: format_entry_kept)
  with f show ?thesis
    by (simp add: formattedHistory_def js_or_def)
qed

text \<open>
  Claim C5 says that the history normalizer drops every entry it does not keep without
  raising an error. An entry with a role whose first part is \<^verbatim>\<open>null\<close> is not dropped:
  the filter reads \<^verbatim>\<open>.text\<close> of that part and throws a TypeError, which ends the request
  with the generic error response of status 500. A \<^verbatim>\<open>null\<close> entry, which the filter tests
  for, is dropped; on a history without an entry of the first kind the claim holds
  (\<open>formattedHistory_lenient\<close>).
\<close>

theorem formattedHistory_null_part_throws:
  "formattedHistory (JArr [JObj [(''role'', JStr ''user''), (''parts'', JArr [JNull])]])
     = Inl (TypeError ''Cannot read properties of null (reading 'text')'')
   \<and> keeps JNull = Inr False
   \<and> POST (scripted 2 (Some ''Try meditation.'') (Some []))
        (Inr (stress_request (JArr [JObj [(''role'', JStr ''user''), (''parts'', JArr [JNull])]]))) 0
     = (Responded
          \<lparr>body = ErrorBody ''Chat service temporarily unavailable''
                   ''Cannot read properties of null (reading 'text')'' (Some ''TypeError''),
           response_status = 500\<rparr>, 0)"
  by (simp add: handler_defs scenario_defs)

text \<open>
  Claim C10. A missing \<^verbatim>\<open>history\<close> field (\<^verbatim>\<open>undefined\<close> after destructuring) and a
  \<^verbatim>\<open>null\<close> one are formatted without an error to the empty history, as the empty array is,
  and the handler does on a body without the field, or with the field \<^verbatim>\<open>null\<close>, exactly
  what it does on the same body with \<^verbatim>\<open>history: []\<close>: the same outcome and the same
  calls of the services.
\<close>

theorem missing_history_is_empty:
  "formattedHistory JUndefined = Inr []
   \<and> formattedHistory JNull = Inr []
   \<and> formattedHistory (JArr []) = Inr []
   \<and> (map_of fs ''history'' = None \<or> map_of fs ''history'' = Some JNull
        \<longrightarrow> POST svc (Inr (JObj fs)) w = POST svc (Inr (JObj ((''history'', JArr []) # fs))) w)"
proof -
  have "POST svc (Inr (JObj fs)) w = POST svc (Inr (JObj ((''history'', JArr []) # fs))) w"
    if absent: "map_of fs ''history'' = None \<or> map_of fs ''history'' = Some JNull"
  proof -
    have "try_block svc (Inr (JObj fs)) w1
          = try_block svc (Inr (JObj ((''history'', JArr []) # fs))) w1" for w1
      using absent
      by (auto simp: try_block_def destructure_def formattedHistory_def js_or_def)
    then have "try_block svc (Inr (JObj fs))
          = try_block svc (Inr (JObj ((''history'', JArr []) # fs)))"
      by (rule ext)
    then show ?thesis
      unfolding POST_def by (rule arg_cong)
  qed
  then show ?thesis
    by (simp add: formattedHistory_def js_or_def)
qed

theorem missing_history_is_empty_witness:
  "POST (scripted 2 (Some ''Try meditation.'') (Some [])) (Inr stress_request_without_history) 0
     = POST (scripted 2 (Some ''Try meditation.'') (Some [])) (Inr (stress_request (JArr []))) 0
   \<and> POST (scripted 2 (Some ''Try meditation.'') (Some [])) (Inr (stress_request JNull)) 0
     = POST (scripted 2 (Some ''Try meditation.'') (Some [])) (Inr (stress_request (JArr []))) 0
   \<and> POST (scripted 2 (Some ''Try meditation.'') (Some [])) (Inr (stress_request (JArr []))) 0
     = (Responded \<lparr>body = AnswerBody ''Try meditation.'', response_status = 200\<rparr>, 2)"
  using
    missing_history_is_empty
      [of "[(''question'', JStr ''What helps with stress?'')]"
          "scripted 2 (Some ''Try meditation.'') (Some [])" 0]
    missing_history_is_empty
      [of "[(''question'', JStr ''What helps with stress?''), (''history'', JNull)]"
          "scripted 2 (Some ''Try meditation.'') (Some [])" 0]
  by (simp add: handler_defs scenario_defs)

lemma context_of_blank:
  "list_all (\<lambda>m. whitespace_only (match_text m))
     (case matches searchResults of None \<Rightarrow> [] | Some ms \<Rightarrow> ms)
   \<Longrightarrow> context_of searchResults = []"
  by (simp add: context_of_def trim_Nil_iff filter_empty_conv list_all_iff split: option.splits)

lemma answer_not_empty: "answer response \<noteq> []"
  by (simp add: answer_def split: option.splits)

lemma try_block_answers:
  assumes "destructure b = Inr (question, history)"
    and "formattedHistory history = Inr formatted"
    and "rewrite_prompt (userHistory formatted) question = Inr prompt"
    and "generateContent S (rewrite_request prompt) s1 = (Inr rewriteResponse, s2)"
    and "embedQuery S (enhancedQuestion (response_text rewriteResponse) question) s2
           = (Inr queryVector, s3)"
    and "query S \<lparr>topK = 10, vector = queryVector, includeMetadata = True\<rparr> s3
           = (Inr searchResults, s4)"
    and "generateContent S
           (answer_request
              (replace_last formatted (enhancedQuestion (response_text rewriteResponse) question))
              (context_of searchResults)) s4
           = (Inr response, s5)"
  shows "try_block S (Inr b) s1 = (Inr (answer response), s5)"
  by (simp add: try_block_def assms Let_def)

text \<open>
  Claim C8. Suppose the session lookup, the rewrite call, the embedding and the query of
  the vector index succeed, the matches returned (none, or a missing list, included) all
  have whitespace-only texts, and the generative service returns a response to the
  answer request. Then the generative service was invoked exactly twice, the second time
  with the formatted history ending in the rewritten question and with a system
  instruction that is the persona text followed by \<^verbatim>\<open>No relevant context found.\<close>; the
  handler responds with status 200 and a non-empty answer, which is the fixed fallback
  sentence whenever the response has no text or the empty text.
\<close>

theorem no_context_still_answers:
  assumes session: "getServerSession svc w0 = (Inr u, w1)"
    and body: "destructure b = Inr (question, history)"
    and hist: "formattedHistory history = Inr formatted"
    and prompt: "rewrite_prompt (userHistory formatted) question = Inr prompt"
    and rewrite: "generateContent svc (rewrite_request prompt) w1 = (Inr rewriteResponse, w2)"
    and embed: "embedQuery svc (enhancedQuestion (response_text rewriteResponse) question) w2
           = (Inr queryVector, w3)"
    and retrieve: "query svc \<lparr>topK = 10, vector = queryVector, includeMetadata = True\<rparr> w3
           = (Inr searchResults, w4)"
    and blank: "list_all (\<lambda>m. whitespace_only (match_text m))
           (case matches searchResults of None \<Rightarrow> [] | Some ms \<Rightarrow> ms)"
    and generate: "generateContent svc
           (answer_request
              (replace_last formatted (enhancedQuestion (response_text rewriteResponse) question))
              (context_of searchResults)) w4
           = (Inr response, w5)"
  shows \<open>POST (recording svc) (Inr b) (w0, [])
      = (Responded \<lparr>body = AnswerBody (answer response), response_status = 200\<rparr>,
         (w5,
          [rewrite_request prompt,
           \<lparr>model = ''gemini-2.5-flash'',
            contents =
              replace_last formatted (enhancedQuestion (response_text rewriteResponse) question),
            systemInstruction = persona @ ''No relevant context found.'',
            temperature = Some (7 / 10)\<rparr>]))
    \<and> POST svc (Inr b) w0
      = (Responded \<lparr>body = AnswerBody (answer response), response_status = 200\<rparr>, w5)
    \<and> answer response \<noteq> []
    \<and> (response_text response = None \<or> response_text response = Some []
        \<longrightarrow> answer response = ''I'm here to guide you on Ayurveda, yoga, and holistic well-being.'')\<close>
proof -
  let ?final = "replace_last formatted (enhancedQuestion (response_text rewriteResponse) question)"
  have ctx: "context_of searchResults = []"
    using blank by (rule context_of_blank)
  have req: "answer_request ?final (context_of searchResults)
      = \<lparr>model = ''gemini-2.5-flash'', contents = ?final,
         systemInstruction = persona @ ''No relevant context found.'',
         temperature = Some (7 / 10)\<rparr>"
    by (simp add: ctx answer_request_def system_instruction_def)
  have plain: "try_block svc (Inr b) w1 = (Inr (answer response), w5)"
    using body hist prompt rewrite embed retrieve generate by (rule try_block_answers)
  have recorded: "try_block (recording svc) (Inr b) (w1, [])
      = (Inr (answer response),
         (w5, [rewrite_request prompt, answer_request ?final (context_of searchResults)]))"
  proof -
    have r1: "generateContent (recording svc) (rewrite_request prompt) (w1, [])
        = (Inr rewriteResponse, (w2, [rewrite_request prompt]))"
      by (simp add: recording_def rewrite)
    have r2: "embedQuery (recording svc)
          (enhancedQuestion (response_text rewriteResponse) question) (w2, [rewrite_request prompt])
        = (Inr queryVector, (w3, [rewrite_request prompt]))"
      by (simp add: recording_def embed)
    have r3: "query (recording svc) \<lparr>topK = 10, vector = queryVector, includeMetadata = True\<rparr>
          (w3, [rewrite_request prompt])
        = (Inr searchResults, (w4, [rewrite_request prompt]))"
      by (simp add: recording_def retrieve)
    have r4: "generateContent (recording svc)
          (answer_request ?final (context_of searchResults)) (w4, [rewrite_request prompt])
        = (Inr response,
           (w5, [rewrite_request prompt, answer_request ?final (context_of searchResults)]))"
      by (simp add: recording_def generate)
    from body hist prompt r1 r2 r3 r4 show ?thesis by (rule try_block_answers)
  qed
  have "POST (recording svc) (Inr b) (w0, [])
      = (Responded \<lparr>body = AnswerBody (answer response), response_status = 200\<rparr>,
         (w5, [rewrite_request prompt, answer_request ?final (context_of searchResults)]))"
  proof -
    have "getServerSession (recording svc) (w0, []) = (Inr u, (w1, []))"
      by (simp add: recording_def session)
    then show ?thesis by (simp add: POST_def recorded)
  qed
  moreover have "POST svc (Inr b) w0
      = (Responded \<lparr>body = AnswerBody (answer response), response_status = 200\<rparr>, w5)"
    by (simp add: POST_def session plain)
  moreover have "response_text response = None \<or> response_text response = Some []
        \<longrightarrow> answer response = ''I'm here to guide you on Ayurveda, yoga, and holistic well-being.''"
    by (auto simp: answer_def)
  ultimately show ?thesis
    using answer_not_empty [of response] by (simp add: req)
qed

theorem no_context_still_answers_witness:
  \<open>POST (recording (scripted 2 None (Some [text_match [], text_match ''  ''])))
     (Inr (stress_request (JArr []))) (0, [])
   = (Responded
        \<lparr>body = AnswerBody ''I'm here to guide you on Ayurveda, yoga, and holistic well-being.'',
         response_status = 200\<rparr>,
      (2,
       [rewrite_request
          ''Previous user messages:\<newline>\<newline>Follow-up question: What helps with stress?'',
        \<lparr>model = ''gemini-2.5-flash'',
         contents = [user_turn ''What helps with stress?''],
         systemInstruction = persona @ ''No relevant context found.'',
         temperature = Some (7 / 10)\<rparr>]))\<close>
proof -
  let ?svc = "scripted 2 None (Some [text_match [], text_match ''  ''])"
  let ?q = "JStr ''What helps with stress?''"
  let ?prompt = \<open>''Previous user messages:\<newline>\<newline>Follow-up question: What helps with stress?''\<close>
  let ?none = "\<lparr>response_text = None\<rparr>"
  let ?found = "\<lparr>matches = Some [text_match [], text_match ''  '']\<rparr>"
  have h1: "getServerSession ?svc 0 = (Inr (), 0)"
    by (simp add: scripted_def)
  have h2: "destructure (stress_request (JArr [])) = Inr (?q, JArr [])"
    by (simp add: destructure_def stress_request_def)
  have h3: "formattedHistory (JArr []) = Inr []"
    by (simp add: formattedHistory_def js_or_def)
  have h4: "rewrite_prompt (userHistory []) ?q = Inr ?prompt"
    by (simp add: rewrite_prompt_def userHistory_def join_values_def ToString_def)
  have h5: "generateContent ?svc (rewrite_request ?prompt) 0 = (Inr ?none, 1)"
    by (simp add: scripted_def)
  have h6: "embedQuery ?svc (enhancedQuestion (response_text ?none) ?q) 1 = (Inr [12, 7, 3], 1)"
    by (simp add: scripted_def)
  have h7: "query ?svc \<lparr>topK = 10, vector = [12, 7, 3], includeMetadata = True\<rparr> 1 = (Inr ?found, 1)"
    by (simp add: scripted_def)
  have h8: "list_all (\<lambda>m. whitespace_only (match_text m))
      (case matches ?found of None \<Rightarrow> [] | Some ms \<Rightarrow> ms)"
    by (simp add: trim_Nil_iff [symmetric] match_text_def text_match_def) code_simp
  have h9: "generateContent ?svc
      (answer_request (replace_last [] (enhancedQuestion (response_text ?none) ?q))
         (context_of ?found)) 1
      = (Inr ?none, 2)"
    by (simp add: scripted_def)
  from no_context_still_answers [OF h1 h2 h3 h4 h5 h6 h7 h8 h9] show ?thesis
    by (simp add: answer_def replace_last_def enhancedQuestion_def js_or_def user_turn_def)
qed

end
